theory Spec2Isabelle
  imports Main "HOL-Library.Word"
begin

section \<open>The bridge between libpurple and whatsmeow (whatsmeow_bridge.go)\<close>

text \<open>
  The Go side of the plugin keeps one \<open>accountState\<close> per libpurple account in the
  package-level map \<open>accounts\<close>, guarded by the mutex \<open>mu\<close>. The exported functions
  (\<open>gowhatsapp_go_login\<close>, \<open>gowhatsapp_go_logout\<close>, \<open>gowhatsapp_go_send_message\<close>,
  \<open>gowhatsapp_go_send_typing\<close>, \<open>gowhatsapp_go_mark_read\<close>) are called from C; events of
  the whatsmeow client are turned into calls of the C callbacks of \<open>bridge.h\<close>.

  The embedding passes the map explicitly, returns the C return code, and records every
  call that leaves the function (mutex operations, calls into whatsmeow and the
  operating system, calls of the C callbacks) as a list of events in program order.
  What whatsmeow answers is not part of the repository: the answers of the library are
  a parameter of each function (the record \<open>engine\<close>).
\<close>

subsection \<open>Values of the libraries\<close>

text \<open>\<open>gowhatsapp_account_t\<close> is \<open>uintptr_t\<close>; the map is keyed by \<open>uintptr(account)\<close>.\<close>

type_synonym account = "64 word"

text \<open>A Go \<open>error\<close> value, by the text of its \<open>Error()\<close>.\<close>

type_synonym go_error = string

text \<open>
  \<open>types.JID\<close> of whatsmeow, by its user and server parts. The bridge never looks inside
  a JID; \<open>emptyJID\<close> is the zero value of the struct.
\<close>

datatype jid = JID (User: string) (Server: string)

definition emptyJID :: jid where
  "emptyJID = JID [] []"

text \<open>
  The content of a received message (\<open>waE2E.Message\<close>): every field is a pointer that
  may be nil. Only the fields \<open>handleMessage\<close> reads are kept; of each sub-message only
  the string field its getter returns.
\<close>

datatype extendedTextMessage = ExtendedTextMessage_of (ext_Text: "string option")
datatype imageMessage = ImageMessage_of (img_Caption: "string option")
datatype videoMessage = VideoMessage_of (vid_Caption: "string option")
datatype documentMessage = DocumentMessage_of (doc_Title: "string option")
datatype stickerMessage = StickerMessage_of
datatype audioMessage = AudioMessage_of
datatype reactionMessage = ReactionMessage_of (rea_Text: "string option")

record waMessage =
  Conversation :: "string option"
  ExtendedTextMessage :: "extendedTextMessage option"
  ImageMessage :: "imageMessage option"
  VideoMessage :: "videoMessage option"
  DocumentMessage :: "documentMessage option"
  StickerMessage :: "stickerMessage option"
  AudioMessage :: "audioMessage option"
  ReactionMessage :: "reactionMessage option"

text \<open>
  The generated getters of protobuf are safe on a nil receiver: a string getter returns
  the empty string when the message or the field is nil, a sub-message getter returns
  nil.
\<close>

definition opt_string :: "string option \<Rightarrow> string" where
  "opt_string s = (case s of None \<Rightarrow> [] | Some x \<Rightarrow> x)"

definition GetConversation :: "waMessage option \<Rightarrow> string" where
  "GetConversation m = (case m of None \<Rightarrow> [] | Some x \<Rightarrow> opt_string (Conversation x))"

definition GetExtendedTextMessage :: "waMessage option \<Rightarrow> extendedTextMessage option" where
  "GetExtendedTextMessage m = (case m of None \<Rightarrow> None | Some x \<Rightarrow> ExtendedTextMessage x)"

definition GetImageMessage :: "waMessage option \<Rightarrow> imageMessage option" where
  "GetImageMessage m = (case m of None \<Rightarrow> None | Some x \<Rightarrow> ImageMessage x)"

definition GetVideoMessage :: "waMessage option \<Rightarrow> videoMessage option" where
  "GetVideoMessage m = (case m of None \<Rightarrow> None | Some x \<Rightarrow> VideoMessage x)"

definition GetDocumentMessage :: "waMessage option \<Rightarrow> documentMessage option" where
  "GetDocumentMessage m = (case m of None \<Rightarrow> None | Some x \<Rightarrow> DocumentMessage x)"

definition GetStickerMessage :: "waMessage option \<Rightarrow> stickerMessage option" where
  "GetStickerMessage m = (case m of None \<Rightarrow> None | Some x \<Rightarrow> StickerMessage x)"

definition GetAudioMessage :: "waMessage option \<Rightarrow> audioMessage option" where
  "GetAudioMessage m = (case m of None \<Rightarrow> None | Some x \<Rightarrow> AudioMessage x)"

definition GetReactionMessage :: "waMessage option \<Rightarrow> reactionMessage option" where
  "GetReactionMessage m = (case m of None \<Rightarrow> None | Some x \<Rightarrow> ReactionMessage x)"

text \<open>\<open>types.MessageInfo\<close>, the fields \<open>handleMessage\<close> hands to C.\<close>

record messageInfo =
  Sender :: jid
  Chat :: jid
  ID :: string
  PushName :: string
  Timestamp :: "64 word"
  IsFromMe :: bool
  IsGroup :: bool

text \<open>\<open>events.Message\<close>: the info and the (possibly nil) content.\<close>

record eventsMessage =
  Info :: messageInfo
  Message :: "waMessage option"

subsection \<open>Handles of the engine\<close>

text \<open>
  The device store that \<open>container.GetFirstDevice()\<close> returns; \<open>dev_ID\<close> is its field
  \<open>ID\<close>, nil until the device has been paired.
\<close>

datatype container = Container nat

datatype device = Device (dev_ID: "jid option")

text \<open>\<open>whatsmeow.NewClient(deviceStore, log)\<close>: the client keeps the store as \<open>client.Store\<close>.\<close>

datatype client = Client (Store: device)

text \<open>
  A \<open>context.Context\<close>: the background context, or the n-th context made by
  \<open>context.WithCancel(context.Background())\<close>.
\<close>

datatype go_context = Background | WithCancel nat

text \<open>\<open>types.ChatPresence\<close>: the two values the bridge sends or compares with.\<close>

datatype chatPresence = ChatPresenceComposing | ChatPresencePaused

text \<open>An item of the QR channel (\<open>whatsmeow.QRChannelItem\<close>): its event name and code.\<close>

record qrChannelItem =
  Event :: string
  Code :: string

subsection \<open>Events: everything a function of the bridge calls\<close>

text \<open>
  The text that \<open>reportError\<close> hands to \<open>bridge_error\<close> is built with \<open>fmt.Sprintf\<close>;
  it is kept as the format (the constructor) and its arguments.
\<close>

datatype error_text =
    DB_error go_error
  | Device_store_error go_error
  | QR_channel_error go_error
  | Connect_error go_error
  | Reconnect_error go_error
  | Invalid_JID string go_error
  | Send_failed go_error
  | QR_code_timed_out
  | Logged_out string

datatype event =
    Mu_Lock
  | Mu_Unlock
  | Os_MkdirAll
  | Os_Chmod string
  | Sqlstore_New string
  | Container_GetFirstDevice container
  | Whatsmeow_NewClient device
  | Client_AddEventHandler client account
  | Client_GetQRChannel client go_context
  | Client_Connect client
  | Client_Disconnect client
  | Client_SendMessage client go_context jid string
  | Client_SendChatPresence client jid chatPresence
  | Client_MarkRead client "string list" jid jid jid
  | Cancel_call nat
  | Go_qr_consumer account
  | Bridge_show_qr_code account string
  | Bridge_connected account
  | Bridge_disconnected account
  | Bridge_error account error_text
  | Bridge_receive_message account jid jid string string string "64 word" int int
  | Bridge_presence_update account jid int
  | Bridge_typing_notification account jid int

subsection \<open>handleMessage: classification of a received message\<close>

text \<open>The branch of the if-chain of \<open>handleMessage\<close> that sets \<open>text\<close>.\<close>

datatype branch =
    PlainText
  | ExtendedText
  | ImageCaption
  | VideoCaption
  | DocumentTitle
  | StickerPlaceholder
  | VoicePlaceholder
  | ReactionText
  | Unsupported

text \<open>
  The if-chain at the head of \<open>handleMessage\<close> ("Extract text content"): the branch
  taken and the value \<open>text\<close> has after it.
\<close>

definition extract_text :: "waMessage option \<Rightarrow> branch \<times> string" where
  "extract_text m =
     (if GetConversation m \<noteq> [] then (PlainText, GetConversation m)
      else case GetExtendedTextMessage m of
        Some ext \<Rightarrow> (ExtendedText, opt_string (ext_Text ext))
      | None \<Rightarrow>
      (case GetImageMessage m of
        Some img \<Rightarrow> (ImageCaption, ''[Image] '' @ opt_string (img_Caption img))
      | None \<Rightarrow>
      (case GetVideoMessage m of
        Some vid \<Rightarrow> (VideoCaption, ''[Video] '' @ opt_string (vid_Caption vid))
      | None \<Rightarrow>
      (case GetDocumentMessage m of
        Some doc \<Rightarrow> (DocumentTitle, ''[Document] '' @ opt_string (doc_Title doc))
      | None \<Rightarrow>
      (case GetStickerMessage m of
        Some _ \<Rightarrow> (StickerPlaceholder, ''[Sticker]'')
      | None \<Rightarrow>
      (case GetAudioMessage m of
        Some _ \<Rightarrow> (VoicePlaceholder, ''[Voice Message]'')
      | None \<Rightarrow>
      (case GetReactionMessage m of
        Some reaction \<Rightarrow> (ReactionText, ''[Reaction: '' @ opt_string (rea_Text reaction) @ '']'')
      | None \<Rightarrow> (Unsupported, ''[Unsupported message type]''))))))))"

definition bool_int :: "bool \<Rightarrow> int" where
  "bool_int b = (if b then 1 else 0)"

text \<open>
  \<open>handleMessage\<close>: nothing is called when the text is empty; otherwise
  \<open>bridge_receive_message\<close> once. The C strings of the two JIDs are their \<open>String()\<close>;
  the event keeps the JIDs.
\<close>

definition handleMessage :: "account \<Rightarrow> eventsMessage \<Rightarrow> event list" where
  "handleMessage acct v =
     (let text = snd (extract_text (Message v)) in
      if text = [] then []
      else [Bridge_receive_message acct (Sender (Info v)) (Chat (Info v)) text
              (ID (Info v)) (PushName (Info v)) (Timestamp (Info v))
              (bool_int (IsFromMe (Info v))) (bool_int (IsGroup (Info v)))])"

subsection \<open>The registry and the answers of the engine\<close>

text \<open>
  \<open>accountState\<close>: the client pointer (nil is \<open>None\<close>), the container, the context made
  by \<open>context.WithCancel\<close> and its cancel function, kept as the number of the context it
  cancels.
\<close>

record accountState =
  client :: "client option"
  container :: container
  ctx :: go_context
  cancel :: nat

text \<open>
  The package-level state: the map \<open>accounts\<close>, and of the Go runtime the number of
  contexts made by \<open>context.WithCancel\<close> so far and the set of those already cancelled.
  The mutex \<open>mu\<close> shows as the events \<open>Mu_Lock\<close> and \<open>Mu_Unlock\<close>.
\<close>

record world =
  accounts :: "account \<Rightarrow> accountState option"
  contexts :: nat
  cancelled :: "nat set"

text \<open>
  What the libraries answer during one call of an exported function. \<open>sqlstore_New\<close> is
  asked with the phone (the database path and the data source name are built from it);
  an \<open>error option\<close> is the returned \<open>error\<close>, \<open>None\<close> for nil. \<open>ParseJID\<close> returns
  both values of \<open>types.ParseJID\<close>.
\<close>

record engine =
  sqlstore_New :: "string \<Rightarrow> go_error + container"
  GetFirstDevice :: "container \<Rightarrow> go_error + device"
  GetQRChannel :: "client \<Rightarrow> go_context \<Rightarrow> go_error option"
  Connect :: "client \<Rightarrow> go_error option"
  SendMessage :: "client \<Rightarrow> jid \<Rightarrow> string \<Rightarrow> go_error option"
  ParseJID :: "string \<Rightarrow> jid \<times> go_error option"

subsection \<open>gowhatsapp_go_login\<close>

text \<open>
  Lines 111 to 146: the connect part of the login, after the state has been stored.
  The QR channel is requested with \<open>ctx\<close>, the background context of line 79.
\<close>

definition login_connect :: "engine \<Rightarrow> account \<Rightarrow> client \<Rightarrow> int \<times> event list" where
  "login_connect e acct cl =
     (if dev_ID (Store cl) = None then
        (case GetQRChannel e cl Background of
           Some err \<Rightarrow>
             (- 1, [Client_GetQRChannel cl Background, Bridge_error acct (QR_channel_error err)])
         | None \<Rightarrow>
           (case Connect e cl of
              Some err \<Rightarrow>
                (- 1, [Client_GetQRChannel cl Background, Client_Connect cl,
                       Bridge_error acct (Connect_error err)])
            | None \<Rightarrow>
                (0, [Client_GetQRChannel cl Background, Client_Connect cl,
                     Go_qr_consumer acct])))
      else
        (case Connect e cl of
           Some err \<Rightarrow> (- 1, [Client_Connect cl, Bridge_error acct (Reconnect_error err)])
         | None \<Rightarrow> (0, [Client_Connect cl])))"

text \<open>Lines 68 to 146: the body of the login, between \<open>mu.Lock()\<close> and the deferred unlock.\<close>

definition login_body :: "engine \<Rightarrow> world \<Rightarrow> account \<Rightarrow> string \<Rightarrow> int \<times> world \<times> event list" where
  "login_body e w acct phone =
     (case accounts w acct of
        Some _ \<Rightarrow> (- 1, w, [])
      | None \<Rightarrow>
        (case sqlstore_New e phone of
           Inl err \<Rightarrow>
             (- 1, w, [Os_MkdirAll, Sqlstore_New phone, Bridge_error acct (DB_error err)])
         | Inr cont \<Rightarrow>
           (case GetFirstDevice e cont of
              Inl err \<Rightarrow>
                (- 1, w, [Os_MkdirAll, Sqlstore_New phone, Os_Chmod phone,
                          Container_GetFirstDevice cont,
                          Bridge_error acct (Device_store_error err)])
            | Inr deviceStore \<Rightarrow>
                (let cl = Client deviceStore;
                     state = \<lparr>client = Some cl, container = cont,
                              ctx = WithCancel (contexts w), cancel = contexts w\<rparr>;
                     w' = w\<lparr>accounts := (accounts w)(acct := Some state),
                            contexts := Suc (contexts w)\<rparr>;
                     (rc, evs) = login_connect e acct cl
                 in (rc, w', [Os_MkdirAll, Sqlstore_New phone, Os_Chmod phone,
                              Container_GetFirstDevice cont, Whatsmeow_NewClient deviceStore,
                              Client_AddEventHandler cl acct] @ evs)))))"

text \<open>
  The exported function: \<open>mu.Lock()\<close>, \<open>defer mu.Unlock()\<close>, the body; the deferred
  unlock runs when the function returns.
\<close>

definition gowhatsapp_go_login :: "engine \<Rightarrow> world \<Rightarrow> account \<Rightarrow> string \<Rightarrow> int \<times> world \<times> event list" where
  "gowhatsapp_go_login e w acct phone =
     (let (rc, w', evs) = login_body e w acct phone
      in (rc, w', Mu_Lock # evs @ [Mu_Unlock]))"

subsection \<open>The consumer of the QR channel\<close>

text \<open>The body of the loop of the goroutine started by the login: the switch on \<open>evt.Event\<close>.\<close>

definition qr_consumer_item :: "account \<Rightarrow> qrChannelItem \<Rightarrow> event list" where
  "qr_consumer_item acct evt =
     (if Event evt = ''code'' then [Bridge_show_qr_code acct (Code evt)]
      else if Event evt = ''success'' then [Bridge_connected acct]
      else if Event evt = ''timeout'' then [Bridge_error acct QR_code_timed_out]
      else [])"

text \<open>
  \<open>for evt := range qrChan\<close>: the items the channel delivers until it is closed, in
  order. The goroutine holds \<open>account\<close> and \<open>qrChan\<close> and nothing else.
\<close>

fun qr_consumer :: "account \<Rightarrow> qrChannelItem list \<Rightarrow> event list" where
  "qr_consumer acct [] = []"
| "qr_consumer acct (evt # rest) = qr_consumer_item acct evt @ qr_consumer acct rest"

subsection \<open>gowhatsapp_go_logout\<close>

definition gowhatsapp_go_logout :: "world \<Rightarrow> account \<Rightarrow> world \<times> event list" where
  "gowhatsapp_go_logout w acct =
     (case accounts w acct of
        None \<Rightarrow> (w, [Mu_Lock, Mu_Unlock])
      | Some state \<Rightarrow>
          (let w' = w\<lparr>accounts := (accounts w)(acct := None)\<rparr> in
           case client state of
             None \<Rightarrow> (w', [Mu_Lock, Mu_Unlock])
           | Some cl \<Rightarrow>
               (w'\<lparr>cancelled := insert (cancel state) (cancelled w')\<rparr>,
                [Mu_Lock, Mu_Unlock, Cancel_call (cancel state), Client_Disconnect cl])))"

subsection \<open>gowhatsapp_go_send_message\<close>

definition gowhatsapp_go_send_message :: "engine \<Rightarrow> world \<Rightarrow> account \<Rightarrow> string \<Rightarrow> string \<Rightarrow> int \<times> event list" where
  "gowhatsapp_go_send_message e w acct jidStr txt =
     (case accounts w acct of
        None \<Rightarrow> (- 1, [Mu_Lock, Mu_Unlock])
      | Some state \<Rightarrow>
        (case client state of
           None \<Rightarrow> (- 1, [Mu_Lock, Mu_Unlock])
         | Some cl \<Rightarrow>
           (case ParseJID e jidStr of
              (targetJID, Some err) \<Rightarrow>
                (- 1, [Mu_Lock, Mu_Unlock, Bridge_error acct (Invalid_JID jidStr err)])
            | (targetJID, None) \<Rightarrow>
              (case SendMessage e cl targetJID txt of
                 Some err \<Rightarrow>
                   (- 1, [Mu_Lock, Mu_Unlock, Client_SendMessage cl Background targetJID txt,
                          Bridge_error acct (Send_failed err)])
               | None \<Rightarrow>
                   (0, [Mu_Lock, Mu_Unlock, Client_SendMessage cl Background targetJID txt])))))"

subsection \<open>gowhatsapp_go_send_typing\<close>

text \<open>\<open>typing\<close> is a C \<open>int\<close>.\<close>

definition gowhatsapp_go_send_typing :: "engine \<Rightarrow> world \<Rightarrow> account \<Rightarrow> string \<Rightarrow> 32 word \<Rightarrow> event list" where
  "gowhatsapp_go_send_typing e w acct jidStr typing =
     (case accounts w acct of
        None \<Rightarrow> [Mu_Lock, Mu_Unlock]
      | Some state \<Rightarrow>
        (case client state of
           None \<Rightarrow> [Mu_Lock, Mu_Unlock]
         | Some cl \<Rightarrow>
           (case ParseJID e jidStr of
              (targetJID, Some err) \<Rightarrow> [Mu_Lock, Mu_Unlock]
            | (targetJID, None) \<Rightarrow>
                (if typing \<noteq> 0
                 then [Mu_Lock, Mu_Unlock, Client_SendChatPresence cl targetJID ChatPresenceComposing]
                 else [Mu_Lock, Mu_Unlock, Client_SendChatPresence cl targetJID ChatPresencePaused]))))"

subsection \<open>gowhatsapp_go_mark_read\<close>

text \<open>
  The errors of the two \<open>ParseJID\<close> calls are discarded (\<open>chatJID, _ := ...\<close>): the JID
  used is the first returned value, whatever the second.
\<close>

definition gowhatsapp_go_mark_read :: "engine \<Rightarrow> world \<Rightarrow> account \<Rightarrow> string \<Rightarrow> string \<Rightarrow> string \<Rightarrow> event list" where
  "gowhatsapp_go_mark_read e w acct jidStr msgID senderStr =
     (case accounts w acct of
        None \<Rightarrow> [Mu_Lock, Mu_Unlock]
      | Some state \<Rightarrow>
        (case client state of
           None \<Rightarrow> [Mu_Lock, Mu_Unlock]
         | Some cl \<Rightarrow>
           (if msgID = [] then [Mu_Lock, Mu_Unlock]
            else
              (let chatJID = fst (ParseJID e jidStr);
                   senderJID = fst (ParseJID e senderStr)
               in [Mu_Lock, Mu_Unlock, Client_MarkRead cl [msgID] chatJID senderJID chatJID]))))"

subsection \<open>handleEvent\<close>

text \<open>
  The events of whatsmeow that \<open>handleEvent\<close> switches on; every other type of event
  is \<open>Ev_Other\<close>. \<open>Ev_LoggedOut\<close> carries the reason as \<open>%s\<close> prints it, \<open>Ev_Presence\<close> the
  fields \<open>From\<close> and \<open>Unavailable\<close>, \<open>Ev_ChatPresence\<close> the sender and whether the state is
  \<open>types.ChatPresenceComposing\<close>.
\<close>

datatype whatsmeow_event =
    Ev_Message eventsMessage
  | Ev_Connected
  | Ev_Disconnected
  | Ev_LoggedOut string
  | Ev_Presence jid bool
  | Ev_ChatPresence jid chatPresence
  | Ev_Receipt
  | Ev_Other

fun handleEvent :: "account \<Rightarrow> accountState \<Rightarrow> whatsmeow_event \<Rightarrow> event list" where
  "handleEvent acct state (Ev_Message v) = handleMessage acct v"
| "handleEvent acct state Ev_Connected = [Bridge_connected acct]"
| "handleEvent acct state Ev_Disconnected = [Bridge_disconnected acct]"
| "handleEvent acct state (Ev_LoggedOut reason) = [Bridge_error acct (Logged_out reason)]"
| "handleEvent acct state (Ev_Presence from unavailable) =
     [Bridge_presence_update acct from (if unavailable = False then 1 else 0)]"
| "handleEvent acct state (Ev_ChatPresence sender st) =
     [Bridge_typing_notification acct sender (if st = ChatPresenceComposing then 1 else 0)]"
| "handleEvent acct state Ev_Receipt = []"
| "handleEvent acct state Ev_Other = []"

subsection \<open>Notions the properties are stated with\<close>

text \<open>
  Every record the login stores has a client (\<open>whatsmeow.NewClient\<close> never returns nil),
  so the test \<open>state.client == nil\<close> of the other functions never fires on a map that
  only the login and the logout have changed.
\<close>

definition registry_ok :: "world \<Rightarrow> bool" where
  "registry_ok w = (\<forall>k st. accounts w k = Some st \<longrightarrow> client st \<noteq> None)"

text \<open>The calls into the engine (whatsmeow and its store) among the events.\<close>

definition engine_call :: "event \<Rightarrow> bool" where
  "engine_call ev =
     (case ev of
        Sqlstore_New _ \<Rightarrow> True
      | Container_GetFirstDevice _ \<Rightarrow> True
      | Client_GetQRChannel _ _ \<Rightarrow> True
      | Client_Connect _ \<Rightarrow> True
      | Client_Disconnect _ \<Rightarrow> True
      | Client_SendMessage _ _ _ _ \<Rightarrow> True
      | Client_SendChatPresence _ _ _ \<Rightarrow> True
      | Client_MarkRead _ _ _ _ _ \<Rightarrow> True
      | _ \<Rightarrow> False)"

text \<open>
  The engine calls of a run that happen while \<open>mu\<close> is held; \<open>held\<close> says whether the
  mutex is held before the first event.
\<close>

fun calls_under_lock :: "bool \<Rightarrow> event list \<Rightarrow> event list" where
  "calls_under_lock held [] = []"
| "calls_under_lock held (ev # evs) =
     (if ev = Mu_Lock then calls_under_lock True evs
      else if ev = Mu_Unlock then calls_under_lock False evs
      else if held \<and> engine_call ev then ev # calls_under_lock held evs
      else calls_under_lock held evs)"

text \<open>
  The classification as the specification words it: the branches in their order of
  priority, the content that populates each, the text each yields, and the first
  populated branch.
\<close>

definition spec_priority_order :: "branch list" where
  "spec_priority_order =
     [PlainText, ExtendedText, ImageCaption, VideoCaption, DocumentTitle,
      StickerPlaceholder, VoicePlaceholder, ReactionText, Unsupported]"

definition spec_populated :: "waMessage option \<Rightarrow> branch \<Rightarrow> bool" where
  "spec_populated m b =
     (case b of
        PlainText \<Rightarrow> GetConversation m \<noteq> []
      | ExtendedText \<Rightarrow> GetExtendedTextMessage m \<noteq> None
      | ImageCaption \<Rightarrow> GetImageMessage m \<noteq> None
      | VideoCaption \<Rightarrow> GetVideoMessage m \<noteq> None
      | DocumentTitle \<Rightarrow> GetDocumentMessage m \<noteq> None
      | StickerPlaceholder \<Rightarrow> GetStickerMessage m \<noteq> None
      | VoicePlaceholder \<Rightarrow> GetAudioMessage m \<noteq> None
      | ReactionText \<Rightarrow> GetReactionMessage m \<noteq> None
      | Unsupported \<Rightarrow> True)"

definition spec_branch_text :: "waMessage option \<Rightarrow> branch \<Rightarrow> string" where
  "spec_branch_text m b =
     (case b of
        PlainText \<Rightarrow> GetConversation m
      | ExtendedText \<Rightarrow>
          (case GetExtendedTextMessage m of None \<Rightarrow> [] | Some x \<Rightarrow> opt_string (ext_Text x))
      | ImageCaption \<Rightarrow>
          ''[Image] '' @ (case GetImageMessage m of None \<Rightarrow> [] | Some x \<Rightarrow> opt_string (img_Caption x))
      | VideoCaption \<Rightarrow>
          ''[Video] '' @ (case GetVideoMessage m of None \<Rightarrow> [] | Some x \<Rightarrow> opt_string (vid_Caption x))
      | DocumentTitle \<Rightarrow>
          ''[Document] '' @ (case GetDocumentMessage m of None \<Rightarrow> [] | Some x \<Rightarrow> opt_string (doc_Title x))
      | StickerPlaceholder \<Rightarrow> ''[Sticker]''
      | VoicePlaceholder \<Rightarrow> ''[Voice Message]''
      | ReactionText \<Rightarrow>
          ''[Reaction: '' @ (case GetReactionMessage m of None \<Rightarrow> [] | Some x \<Rightarrow> opt_string (rea_Text x)) @ '']''
      | Unsupported \<Rightarrow> ''[Unsupported message type]'')"

definition spec_classify :: "waMessage option \<Rightarrow> (branch \<times> string) option" where
  "spec_classify m =
     map_option (\<lambda>b. (b, spec_branch_text m b)) (find (spec_populated m) spec_priority_order)"

text \<open>
  A branch fires when its content is populated and no branch before it in the order of
  priority is.
\<close>

definition spec_fires :: "waMessage option \<Rightarrow> branch \<Rightarrow> bool" where
  "spec_fires m b =
     (spec_populated m b \<and>
      (\<forall>b' \<in> set (takeWhile (\<lambda>x. x \<noteq> b) spec_priority_order). \<not> spec_populated m b'))"

text \<open>
  What the engine answers to the setup calls of one login, read off the answers alone:
  every setup call succeeds (the store opens, the device is fetched, the QR channel is
  granted when the device is not paired, the connect succeeds), or the setup fails
  before line 104 stores the record (the store or the device fetch returns an error).
\<close>

definition setup_succeeds :: "engine \<Rightarrow> string \<Rightarrow> bool" where
  "setup_succeeds e phone =
     (case sqlstore_New e phone of
        Inl err \<Rightarrow> False
      | Inr cont \<Rightarrow>
        (case GetFirstDevice e cont of
           Inl err \<Rightarrow> False
         | Inr deviceStore \<Rightarrow>
             (if dev_ID deviceStore = None
              then GetQRChannel e (Client deviceStore) Background = None \<and>
                   Connect e (Client deviceStore) = None
              else Connect e (Client deviceStore) = None)))"

definition setup_fails_before_insert :: "engine \<Rightarrow> string \<Rightarrow> bool" where
  "setup_fails_before_insert e phone =
     (case sqlstore_New e phone of
        Inl err \<Rightarrow> True
      | Inr cont \<Rightarrow>
        (case GetFirstDevice e cont of
           Inl err \<Rightarrow> True
         | Inr deviceStore \<Rightarrow> False))"

subsection \<open>Concrete inputs\<close>

text \<open>No account is logged in, no context has been made.\<close>

definition world_empty :: world where
  "world_empty = \<lparr>accounts = (\<lambda>k. None), contexts = 0, cancelled = {}\<rparr>"

text \<open>
  Answers of \<open>types.ParseJID\<close> on three strings: a phone JID, a string with too many
  dots in its user part (the parser returns the JID it has built so far together with
  its error), and anything else read as a server-only JID.
\<close>

definition parse_example :: "string \<Rightarrow> jid \<times> go_error option" where
  "parse_example s =
     (if s = ''6598765432@s.whatsapp.net'' then (JID ''6598765432'' ''s.whatsapp.net'', None)
      else if s = ''a.b.c@s.whatsapp.net''
      then (JID ''a.b.c'' ''s.whatsapp.net'', Some ''unexpected number of dots in JID'')
      else (JID [] s, None))"

text \<open>An engine where everything succeeds and the device has not been paired yet.\<close>

definition engine_ok :: engine where
  "engine_ok =
     \<lparr>sqlstore_New = (\<lambda>phone. Inr (Container 0)),
      GetFirstDevice = (\<lambda>c. Inr (Device None)),
      GetQRChannel = (\<lambda>cl cx. None),
      Connect = (\<lambda>cl. None),
      SendMessage = (\<lambda>cl j t. None),
      ParseJID = parse_example\<rparr>"

text \<open>The same engine with one call failing: the store, the QR channel, the connect, the send.\<close>

definition engine_db_fails :: engine where
  "engine_db_fails = engine_ok\<lparr>sqlstore_New := (\<lambda>phone. Inl ''unable to open database file'')\<rparr>"

definition engine_qr_fails :: engine where
  "engine_qr_fails = engine_ok\<lparr>GetQRChannel := (\<lambda>cl cx. Some ''websocket is already connected'')\<rparr>"

definition engine_connect_fails :: engine where
  "engine_connect_fails = engine_ok\<lparr>Connect := (\<lambda>cl. Some ''dial tcp: i/o timeout'')\<rparr>"

definition engine_send_fails :: engine where
  "engine_send_fails = engine_ok\<lparr>SendMessage := (\<lambda>cl j t. Some ''not logged in'')\<rparr>"

text \<open>The state of account 1 after a login with \<open>engine_ok\<close> on the empty world.\<close>

definition state_one :: accountState where
  "state_one = \<lparr>client = Some (Client (Device None)), container = Container 0,
                 ctx = WithCancel 0, cancel = 0\<rparr>"

definition world_one :: world where
  "world_one = \<lparr>accounts = (\<lambda>k. if k = 1 then Some state_one else None),
                 contexts = 1, cancelled = {}\<rparr>"

text \<open>A message with a conversation string and an image with a caption.\<close>

definition message_text_and_image :: waMessage where
  "message_text_and_image =
     \<lparr>Conversation = Some ''hello'', ExtendedTextMessage = None,
      ImageMessage = Some (ImageMessage_of (Some ''a photo'')), VideoMessage = None,
      DocumentMessage = None, StickerMessage = None, AudioMessage = None,
      ReactionMessage = None\<rparr>"

text \<open>An extended text message whose text is empty, and an event that carries it.\<close>

definition message_empty_extended :: waMessage where
  "message_empty_extended =
     \<lparr>Conversation = None, ExtendedTextMessage = Some (ExtendedTextMessage_of (Some [])),
      ImageMessage = None, VideoMessage = None, DocumentMessage = None,
      StickerMessage = None, AudioMessage = None, ReactionMessage = None\<rparr>"

definition event_empty_extended :: eventsMessage where
  "event_empty_extended =
     \<lparr>Info = \<lparr>Sender = JID ''6598765432'' ''s.whatsapp.net'',
              Chat = JID ''6598765432'' ''s.whatsapp.net'', ID = ''3EB0A1'',
              PushName = ''Ann'', Timestamp = 1700000000, IsFromMe = False,
              IsGroup = False\<rparr>,
      Message = Some message_empty_extended\<rparr>"

section \<open>Properties\<close>

subsection \<open>Auxiliary facts\<close>

lemmas login_defs = gowhatsapp_go_login_def login_body_def login_connect_def

lemmas example_defs =
  engine_ok_def engine_db_fails_def engine_qr_fails_def engine_connect_fails_def
  engine_send_fails_def world_empty_def world_one_def state_one_def parse_example_def

lemma registry_ok_empty: "registry_ok world_empty"
  by (simp add: registry_ok_def world_empty_def)

lemma registry_ok_one: "registry_ok world_one"
  by (simp add: registry_ok_def world_one_def state_one_def)

lemma registry_ok_client:
  "registry_ok w \<Longrightarrow> accounts w k = Some st \<Longrightarrow> \<exists>cl. client st = Some cl"
  by (auto simp add: registry_ok_def)

text \<open>The login and the logout keep the invariant, so it holds of every map they build.\<close>

lemma registry_ok_login:
  "registry_ok w \<Longrightarrow> registry_ok (fst (snd (gowhatsapp_go_login e w acct phone)))"
  by (auto simp add: login_defs registry_ok_def Let_def
      split: option.splits sum.splits prod.splits)

lemma registry_ok_logout:
  "registry_ok w \<Longrightarrow> registry_ok (fst (gowhatsapp_go_logout w acct))"
  by (auto simp add: gowhatsapp_go_logout_def registry_ok_def Let_def split: option.splits)

lemma login_connect_rc:
  "fst (login_connect e acct cl) = 0 \<or> fst (login_connect e acct cl) = - 1"
  by (simp add: login_connect_def split: option.splits)

lemma login_existing:
  "accounts w acct \<noteq> None \<Longrightarrow>
   gowhatsapp_go_login e w acct phone = (- 1, w, [Mu_Lock, Mu_Unlock])"
  by (auto simp add: login_defs)

lemma login_success_record:
  "gowhatsapp_go_login e w acct phone = (0, w', evs) \<Longrightarrow> accounts w' acct \<noteq> None"
  by (auto simp add: login_defs Let_def split: option.splits sum.splits prod.splits)

lemma login_setup_succeeds:
  "accounts w acct = None \<Longrightarrow> setup_succeeds e phone \<Longrightarrow>
   fst (gowhatsapp_go_login e w acct phone) = 0 \<and>
   accounts (fst (snd (gowhatsapp_go_login e w acct phone))) acct \<noteq> None"
  by (auto simp add: login_defs setup_succeeds_def Let_def
      split: option.splits sum.splits prod.splits if_splits)

lemma login_setup_fails_before_insert:
  "accounts w acct = None \<Longrightarrow> setup_fails_before_insert e phone \<Longrightarrow>
   fst (gowhatsapp_go_login e w acct phone) = - 1 \<and>
   fst (snd (gowhatsapp_go_login e w acct phone)) = w"
  by (auto simp add: login_defs setup_fails_before_insert_def Let_def
      split: option.splits sum.splits prod.splits)

lemma login_ok_eval:
  "gowhatsapp_go_login engine_ok world_empty 1 ''6512345678'' =
     (0, world_one,
      [Mu_Lock, Os_MkdirAll, Sqlstore_New ''6512345678'', Os_Chmod ''6512345678'',
       Container_GetFirstDevice (Container 0), Whatsmeow_NewClient (Device None),
       Client_AddEventHandler (Client (Device None)) 1,
       Client_GetQRChannel (Client (Device None)) Background,
       Client_Connect (Client (Device None)), Go_qr_consumer 1, Mu_Unlock])"
  by (simp add: login_defs example_defs Let_def fun_eq_iff)

lemma calls_under_lock_body:
  "Mu_Lock \<notin> set evs \<Longrightarrow> Mu_Unlock \<notin> set evs \<Longrightarrow>
   calls_under_lock True (evs @ [Mu_Unlock]) = filter engine_call evs"
  by (induction evs) auto

lemma login_body_no_mutex:
  "Mu_Lock \<notin> set (snd (snd (login_body e w acct phone))) \<and>
   Mu_Unlock \<notin> set (snd (snd (login_body e w acct phone)))"
  by (simp add: login_body_def login_connect_def Let_def
      split: option.splits sum.splits prod.splits)

lemma calls_under_lock_login:
  "calls_under_lock False (snd (snd (gowhatsapp_go_login e w acct phone))) =
   filter engine_call (snd (snd (gowhatsapp_go_login e w acct phone)))"
  using login_body_no_mutex [of e w acct phone]
  by (auto simp add: gowhatsapp_go_login_def calls_under_lock_body engine_call_def
      split: prod.splits)

lemma calls_under_lock_logout:
  "calls_under_lock False (snd (gowhatsapp_go_logout w acct)) = []"
  by (simp add: gowhatsapp_go_logout_def Let_def split: option.splits)

lemma calls_under_lock_send_message:
  "calls_under_lock False (snd (gowhatsapp_go_send_message e w acct target txt)) = []"
  by (simp add: gowhatsapp_go_send_message_def split: option.splits prod.splits)

lemma calls_under_lock_send_typing:
  "calls_under_lock False (gowhatsapp_go_send_typing e w acct target typing) = []"
  by (simp add: gowhatsapp_go_send_typing_def split: option.splits prod.splits)

lemma calls_under_lock_mark_read:
  "calls_under_lock False (gowhatsapp_go_mark_read e w acct chat msgID sender) = []"
  by (simp add: gowhatsapp_go_mark_read_def Let_def split: option.splits prod.splits)

lemma send_message_absent:
  "accounts w acct = None \<Longrightarrow>
   gowhatsapp_go_send_message e w acct target txt = (- 1, [Mu_Lock, Mu_Unlock])"
  by (simp add: gowhatsapp_go_send_message_def)

lemma send_message_invalid:
  "accounts w acct = Some st \<Longrightarrow> client st = Some cl \<Longrightarrow>
   snd (ParseJID e target) = Some err \<Longrightarrow>
   gowhatsapp_go_send_message e w acct target txt =
     (- 1, [Mu_Lock, Mu_Unlock, Bridge_error acct (Invalid_JID target err)])"
  by (cases "ParseJID e target") (simp add: gowhatsapp_go_send_message_def)

lemma send_message_forward:
  "accounts w acct = Some st \<Longrightarrow> client st = Some cl \<Longrightarrow>
   ParseJID e target = (j, None) \<Longrightarrow>
   gowhatsapp_go_send_message e w acct target txt =
     (case SendMessage e cl j txt of
        Some err \<Rightarrow>
          (- 1, [Mu_Lock, Mu_Unlock, Client_SendMessage cl Background j txt,
                 Bridge_error acct (Send_failed err)])
      | None \<Rightarrow> (0, [Mu_Lock, Mu_Unlock, Client_SendMessage cl Background j txt]))"
  by (simp add: gowhatsapp_go_send_message_def)

lemma send_typing_absent:
  "accounts w acct = None \<Longrightarrow>
   gowhatsapp_go_send_typing e w acct target typing = [Mu_Lock, Mu_Unlock]"
  by (simp add: gowhatsapp_go_send_typing_def)

lemma send_typing_invalid:
  "snd (ParseJID e target) \<noteq> None \<Longrightarrow>
   gowhatsapp_go_send_typing e w acct target typing = [Mu_Lock, Mu_Unlock]"
  by (cases "ParseJID e target")
     (auto simp add: gowhatsapp_go_send_typing_def split: option.splits)

lemma send_typing_forward:
  "accounts w acct = Some st \<Longrightarrow> client st = Some cl \<Longrightarrow>
   ParseJID e target = (j, None) \<Longrightarrow>
   gowhatsapp_go_send_typing e w acct target typing =
     [Mu_Lock, Mu_Unlock,
      Client_SendChatPresence cl j
        (if typing \<noteq> 0 then ChatPresenceComposing else ChatPresencePaused)]"
  by (simp add: gowhatsapp_go_send_typing_def)

lemma mark_read_absent:
  "accounts w acct = None \<Longrightarrow>
   gowhatsapp_go_mark_read e w acct chat msgID sender = [Mu_Lock, Mu_Unlock]"
  by (simp add: gowhatsapp_go_mark_read_def)

lemma mark_read_empty_id:
  "gowhatsapp_go_mark_read e w acct chat [] sender = [Mu_Lock, Mu_Unlock]"
  by (simp add: gowhatsapp_go_mark_read_def split: option.splits)

lemma mark_read_forward:
  "accounts w acct = Some st \<Longrightarrow> client st = Some cl \<Longrightarrow> msgID \<noteq> [] \<Longrightarrow>
   gowhatsapp_go_mark_read e w acct chat msgID sender =
     [Mu_Lock, Mu_Unlock,
      Client_MarkRead cl [msgID] (fst (ParseJID e chat)) (fst (ParseJID e sender))
        (fst (ParseJID e chat))]"
  by (simp add: gowhatsapp_go_mark_read_def Let_def)

lemma spec_classify_extract: "spec_classify m = Some (extract_text m)"
  unfolding spec_classify_def spec_priority_order_def extract_text_def
  by (simp add: spec_populated_def spec_branch_text_def split: option.splits)

lemma spec_fires_extract: "spec_fires m b \<longleftrightarrow> b = fst (extract_text m)"
  unfolding spec_fires_def spec_priority_order_def extract_text_def
  by (cases b) (auto simp add: spec_populated_def split: option.splits)

lemma extract_text_empty:
  "snd (extract_text m) = [] \<longleftrightarrow>
   GetConversation m = [] \<and>
   (\<exists>ext. GetExtendedTextMessage m = Some ext \<and> opt_string (ext_Text ext) = [])"
  by (auto simp add: extract_text_def split: option.splits)

subsection \<open>Login: failure after the record has been stored\<close>

text \<open>
  Claim C1. When a step of the login after \<open>accounts[key] = state\<close> fails (the request
  of the QR channel or the connect), the login reports an error and returns \<open>-1\<close>, and
  the registry should hold no record for the account afterwards. Evaluated on the empty
  registry with an engine whose connect fails, and with one whose QR channel request
  fails: the error is reported and \<open>-1\<close> is returned, but the record of account 1 stays
  in the map (no path of the login deletes it), and a further login of the account is
  refused as already logged in.
\<close>

theorem login_failure_after_insert_keeps_record:
  "gowhatsapp_go_login engine_connect_fails world_empty 1 ''6512345678'' =
     (- 1, world_one,
      [Mu_Lock, Os_MkdirAll, Sqlstore_New ''6512345678'', Os_Chmod ''6512345678'',
       Container_GetFirstDevice (Container 0), Whatsmeow_NewClient (Device None),
       Client_AddEventHandler (Client (Device None)) 1,
       Client_GetQRChannel (Client (Device None)) Background,
       Client_Connect (Client (Device None)),
       Bridge_error 1 (Connect_error ''dial tcp: i/o timeout''), Mu_Unlock])
   \<and> gowhatsapp_go_login engine_qr_fails world_empty 1 ''6512345678'' =
     (- 1, world_one,
      [Mu_Lock, Os_MkdirAll, Sqlstore_New ''6512345678'', Os_Chmod ''6512345678'',
       Container_GetFirstDevice (Container 0), Whatsmeow_NewClient (Device None),
       Client_AddEventHandler (Client (Device None)) 1,
       Client_GetQRChannel (Client (Device None)) Background,
       Bridge_error 1 (QR_channel_error ''websocket is already connected''), Mu_Unlock])
   \<and> accounts world_empty 1 = None
   \<and> accounts world_one 1 = Some state_one
   \<and> gowhatsapp_go_login engine_ok world_one 1 ''6512345678'' =
     (- 1, world_one, [Mu_Lock, Mu_Unlock])"
  by (simp add: login_defs example_defs Let_def fun_eq_iff)

subsection \<open>Login: one record per account\<close>

text \<open>
  Claim C2, as stated: of two logins of the same account exactly one succeeds. It fails
  when the setup of both fails before a record is stored: with a store that cannot be
  opened, the first login returns \<open>-1\<close> and leaves the registry as it was, and so does
  the second.
\<close>

theorem two_logins_both_fail:
  "gowhatsapp_go_login engine_db_fails world_empty 1 ''6512345678'' =
     (- 1, world_empty,
      [Mu_Lock, Os_MkdirAll, Sqlstore_New ''6512345678'',
       Bridge_error 1 (DB_error ''unable to open database file''), Mu_Unlock])
   \<and> fst (gowhatsapp_go_login engine_db_fails
            (fst (snd (gowhatsapp_go_login engine_db_fails world_empty 1 ''6512345678'')))
            1 ''6512345678'') = - 1"
  by (simp add: login_defs example_defs Let_def)

text \<open>
  Claim C2, amended. The map holds at most one record per account: a login of an
  account that has a record returns \<open>-1\<close>, changes nothing and calls nothing but the
  mutex. So of two logins of the same account, one after the other on a map without a
  record of it, exactly one succeeds and the other fails whenever the setup of one of
  them succeeds: when the setup of the first succeeds, the first returns \<open>0\<close> and the
  second \<open>-1\<close>, whatever the engine answers the second; when the first fails before a
  record is stored and the setup of the second succeeds, the first returns \<open>-1\<close> and
  the second \<open>0\<close>. When the setup of both fails before a record is stored, both return
  \<open>-1\<close> and the map is as it was.
\<close>

theorem two_logins_exactly_one_succeeds:
  "(accounts w acct \<noteq> None \<longrightarrow>
      gowhatsapp_go_login e w acct phone = (- 1, w, [Mu_Lock, Mu_Unlock]))
   \<and> (accounts w acct = None \<and> setup_succeeds e1 p1 \<longrightarrow>
        fst (gowhatsapp_go_login e1 w acct p1) = 0 \<and>
        gowhatsapp_go_login e2 (fst (snd (gowhatsapp_go_login e1 w acct p1))) acct p2 =
          (- 1, fst (snd (gowhatsapp_go_login e1 w acct p1)), [Mu_Lock, Mu_Unlock]))
   \<and> (accounts w acct = None \<and> setup_fails_before_insert e1 p1 \<and> setup_succeeds e2 p2 \<longrightarrow>
        fst (gowhatsapp_go_login e1 w acct p1) = - 1 \<and>
        fst (gowhatsapp_go_login e2 (fst (snd (gowhatsapp_go_login e1 w acct p1))) acct p2) = 0)
   \<and> (accounts w acct = None \<and> setup_fails_before_insert e1 p1 \<and>
      setup_fails_before_insert e2 p2 \<longrightarrow>
        fst (gowhatsapp_go_login e1 w acct p1) = - 1 \<and>
        fst (gowhatsapp_go_login e2 (fst (snd (gowhatsapp_go_login e1 w acct p1))) acct p2) = - 1 \<and>
        fst (snd (gowhatsapp_go_login e2 (fst (snd (gowhatsapp_go_login e1 w acct p1))) acct p2)) = w)"
proof -
  have existing: "accounts w acct \<noteq> None \<longrightarrow>
      gowhatsapp_go_login e w acct phone = (- 1, w, [Mu_Lock, Mu_Unlock])"
    by (simp add: login_existing)
  have first_wins: "fst (gowhatsapp_go_login e1 w acct p1) = 0 \<and>
      gowhatsapp_go_login e2 (fst (snd (gowhatsapp_go_login e1 w acct p1))) acct p2 =
        (- 1, fst (snd (gowhatsapp_go_login e1 w acct p1)), [Mu_Lock, Mu_Unlock])"
    if a: "accounts w acct = None \<and> setup_succeeds e1 p1"
  proof -
    from a have ok: "fst (gowhatsapp_go_login e1 w acct p1) = 0" and
      stored: "accounts (fst (snd (gowhatsapp_go_login e1 w acct p1))) acct \<noteq> None"
      using login_setup_succeeds [of w acct e1 p1] by simp_all
    from stored have "gowhatsapp_go_login e2 (fst (snd (gowhatsapp_go_login e1 w acct p1))) acct p2 =
        (- 1, fst (snd (gowhatsapp_go_login e1 w acct p1)), [Mu_Lock, Mu_Unlock])"
      by (rule login_existing)
    with ok show ?thesis by simp
  qed
  have first_fails: "fst (gowhatsapp_go_login e1 w acct p1) = - 1 \<and>
      fst (snd (gowhatsapp_go_login e1 w acct p1)) = w"
    if "accounts w acct = None" "setup_fails_before_insert e1 p1"
    using that by (rule login_setup_fails_before_insert)
  have second_wins: "fst (gowhatsapp_go_login e1 w acct p1) = - 1 \<and>
      fst (gowhatsapp_go_login e2 (fst (snd (gowhatsapp_go_login e1 w acct p1))) acct p2) = 0"
    if a: "accounts w acct = None \<and> setup_fails_before_insert e1 p1 \<and> setup_succeeds e2 p2"
  proof -
    from a first_fails have f: "fst (gowhatsapp_go_login e1 w acct p1) = - 1"
      and same: "fst (snd (gowhatsapp_go_login e1 w acct p1)) = w"
      by simp_all
    from a have "fst (gowhatsapp_go_login e2 w acct p2) = 0"
      using login_setup_succeeds [of w acct e2 p2] by simp
    with f same show ?thesis by simp
  qed
  have both_fail: "fst (gowhatsapp_go_login e1 w acct p1) = - 1 \<and>
      fst (gowhatsapp_go_login e2 (fst (snd (gowhatsapp_go_login e1 w acct p1))) acct p2) = - 1 \<and>
      fst (snd (gowhatsapp_go_login e2 (fst (snd (gowhatsapp_go_login e1 w acct p1))) acct p2)) = w"
    if a: "accounts w acct = None \<and> setup_fails_before_insert e1 p1 \<and>
      setup_fails_before_insert e2 p2"
  proof -
    from a first_fails have f: "fst (gowhatsapp_go_login e1 w acct p1) = - 1"
      and same: "fst (snd (gowhatsapp_go_login e1 w acct p1)) = w"
      by simp_all
    from a have "fst (gowhatsapp_go_login e2 w acct p2) = - 1 \<and>
        fst (snd (gowhatsapp_go_login e2 w acct p2)) = w"
      using login_setup_fails_before_insert [of w acct e2 p2] by simp
    with f same show ?thesis by simp
  qed
  from existing first_wins second_wins both_fail show ?thesis by simp
qed

theorem two_logins_exactly_one_succeeds_witness:
  "accounts world_one 1 \<noteq> None
   \<and> gowhatsapp_go_login engine_ok world_one 1 ''6512345678'' =
       (- 1, world_one, [Mu_Lock, Mu_Unlock])
   \<and> accounts world_empty 1 = None
   \<and> setup_succeeds engine_ok ''6512345678''
   \<and> setup_fails_before_insert engine_db_fails ''6512345678''
   \<and> fst (gowhatsapp_go_login engine_ok world_empty 1 ''6512345678'') = 0
   \<and> fst (gowhatsapp_go_login engine_connect_fails
            (fst (snd (gowhatsapp_go_login engine_ok world_empty 1 ''6512345678'')))
            1 ''6512345678'') = - 1
   \<and> fst (gowhatsapp_go_login engine_db_fails world_empty 1 ''6512345678'') = - 1
   \<and> fst (gowhatsapp_go_login engine_ok
            (fst (snd (gowhatsapp_go_login engine_db_fails world_empty 1 ''6512345678'')))
            1 ''6512345678'') = 0
   \<and> fst (gowhatsapp_go_login engine_db_fails
            (fst (snd (gowhatsapp_go_login engine_db_fails world_empty 1 ''6512345678'')))
            1 ''6512345678'') = - 1"
proof -
  have rec: "accounts world_one 1 \<noteq> None"
    by (simp add: world_one_def)
  have none: "accounts world_empty 1 = None"
    by (simp add: world_empty_def)
  have good: "setup_succeeds engine_ok ''6512345678''"
    by (simp add: setup_succeeds_def engine_ok_def)
  have bad: "setup_fails_before_insert engine_db_fails ''6512345678''"
    by (simp add: setup_fails_before_insert_def engine_db_fails_def engine_ok_def)
  have 1: "gowhatsapp_go_login engine_ok world_one 1 ''6512345678'' =
      (- 1, world_one, [Mu_Lock, Mu_Unlock])"
    using two_logins_exactly_one_succeeds [of world_one 1 engine_ok "''6512345678''"] rec
    by simp
  have 2: "fst (gowhatsapp_go_login engine_ok world_empty 1 ''6512345678'') = 0 \<and>
      fst (gowhatsapp_go_login engine_connect_fails
            (fst (snd (gowhatsapp_go_login engine_ok world_empty 1 ''6512345678'')))
            1 ''6512345678'') = - 1"
    using two_logins_exactly_one_succeeds [of world_empty 1 _ _ engine_ok "''6512345678''"
        engine_connect_fails "''6512345678''"] none good
    by simp
  have 3: "fst (gowhatsapp_go_login engine_db_fails world_empty 1 ''6512345678'') = - 1 \<and>
      fst (gowhatsapp_go_login engine_ok
            (fst (snd (gowhatsapp_go_login engine_db_fails world_empty 1 ''6512345678'')))
            1 ''6512345678'') = 0"
    using two_logins_exactly_one_succeeds [of world_empty 1 _ _ engine_db_fails
        "''6512345678''" engine_ok "''6512345678''"] none good bad
    by simp
  have 4: "fst (gowhatsapp_go_login engine_db_fails
            (fst (snd (gowhatsapp_go_login engine_db_fails world_empty 1 ''6512345678'')))
            1 ''6512345678'') = - 1"
    using two_logins_exactly_one_succeeds [of world_empty 1 _ _ engine_db_fails
        "''6512345678''" engine_db_fails "''6512345678''"] none bad
    by simp
  from rec none good bad 1 2 3 4 show ?thesis by simp
qed

subsection \<open>Logout and the consumer of the QR channel\<close>

text \<open>
  Claim C3. After the logout has removed the record and called \<open>cancel\<close>, the consumer
  of the QR channel should stop forwarding. Evaluated: the login of account 1 requests
  the QR channel with the background context (not with the context of the session) and
  starts the consumer; the logout removes the record and cancels context 0; the
  consumer, which reads neither the registry nor a context, still forwards a code and a
  success that the channel delivers.
\<close>

theorem qr_consumer_forwards_after_logout:
  "gowhatsapp_go_login engine_ok world_empty 1 ''6512345678'' =
     (0, world_one,
      [Mu_Lock, Os_MkdirAll, Sqlstore_New ''6512345678'', Os_Chmod ''6512345678'',
       Container_GetFirstDevice (Container 0), Whatsmeow_NewClient (Device None),
       Client_AddEventHandler (Client (Device None)) 1,
       Client_GetQRChannel (Client (Device None)) Background,
       Client_Connect (Client (Device None)), Go_qr_consumer 1, Mu_Unlock])
   \<and> ctx state_one = WithCancel 0
   \<and> snd (gowhatsapp_go_logout world_one 1) =
       [Mu_Lock, Mu_Unlock, Cancel_call 0, Client_Disconnect (Client (Device None))]
   \<and> accounts (fst (gowhatsapp_go_logout world_one 1)) 1 = None
   \<and> cancelled (fst (gowhatsapp_go_logout world_one 1)) = {0}
   \<and> qr_consumer 1 [\<lparr>Event = ''code'', Code = ''2@AbCd''\<rparr>, \<lparr>Event = ''success'', Code = []\<rparr>] =
       [Bridge_show_qr_code 1 ''2@AbCd'', Bridge_connected 1]"
  by (simp add: login_ok_eval)
     (simp add: example_defs gowhatsapp_go_logout_def qr_consumer_item_def)

subsection \<open>Message classification\<close>

text \<open>
  Claim C4. The classification is total and deterministic: for every message exactly
  one branch fires, the first populated one in the order plain text, extended text,
  image caption, video caption, document title, sticker, voice note, reaction,
  unsupported; the text is the text of that branch. A message with image content and a
  non-empty conversation string takes the plain-text branch.
\<close>

theorem classification_total_deterministic:
  "spec_classify m = Some (extract_text m)
   \<and> (spec_fires m b \<longleftrightarrow> b = fst (extract_text m))
   \<and> (GetConversation m \<noteq> [] \<and> GetImageMessage m \<noteq> None \<longrightarrow>
        extract_text m = (PlainText, GetConversation m))"
  using spec_classify_extract [of m] spec_fires_extract [of m b]
  by (simp add: extract_text_def)

theorem classification_total_deterministic_witness:
  "GetConversation (Some message_text_and_image) \<noteq> []
   \<and> GetImageMessage (Some message_text_and_image) \<noteq> None
   \<and> extract_text (Some message_text_and_image) = (PlainText, ''hello'')
   \<and> spec_classify (Some message_text_and_image) = Some (PlainText, ''hello'')
   \<and> spec_fires (Some message_text_and_image) PlainText"
proof -
  have pre: "GetConversation (Some message_text_and_image) = ''hello'' \<and>
      GetImageMessage (Some message_text_and_image) \<noteq> None"
    by (simp add: GetConversation_def GetImageMessage_def message_text_and_image_def
        opt_string_def)
  with classification_total_deterministic [of "Some message_text_and_image" PlainText]
  show ?thesis by simp
qed

subsection \<open>The scope of the mutex\<close>

text \<open>
  Claim C5, as stated: no engine call of an inward command runs while \<open>mu\<close> is held. It
  fails for the login, whose unlock is deferred to the return: on the empty registry
  the store is opened, the device fetched, the QR channel requested and the client
  connected under the mutex.
\<close>

theorem login_calls_engine_under_lock:
  "calls_under_lock False (snd (snd (gowhatsapp_go_login engine_ok world_empty 1 ''6512345678''))) =
     [Sqlstore_New ''6512345678'', Container_GetFirstDevice (Container 0),
      Client_GetQRChannel (Client (Device None)) Background,
      Client_Connect (Client (Device None))]"
  by (simp add: login_ok_eval) (simp add: engine_call_def)

text \<open>
  Claim C5, amended. The logout, the sending of a message, the typing notification and
  the read receipt hold \<open>mu\<close> for the map lookup or delete only, and none of their
  engine calls runs while it is held. The login takes \<open>mu\<close> on entry and releases it
  when it returns, so every engine call of the login runs under \<open>mu\<close>.
\<close>

theorem mutex_scope:
  "calls_under_lock False (snd (gowhatsapp_go_logout w acct)) = []
   \<and> calls_under_lock False (snd (gowhatsapp_go_send_message e w acct target txt)) = []
   \<and> calls_under_lock False (gowhatsapp_go_send_typing e w acct target typing) = []
   \<and> calls_under_lock False (gowhatsapp_go_mark_read e w acct chat msgID sender) = []
   \<and> calls_under_lock False (snd (snd (gowhatsapp_go_login e w acct phone))) =
       filter engine_call (snd (snd (gowhatsapp_go_login e w acct phone)))"
  by (simp add: calls_under_lock_logout calls_under_lock_send_message
      calls_under_lock_send_typing calls_under_lock_mark_read calls_under_lock_login)

subsection \<open>Sending a message\<close>

text \<open>
  Claim C6. On a registry built by login and logout: sending fails with \<open>-1\<close> and calls
  nothing when the account has no record; when it has one and the target does not
  parse, it reports the invalid JID, returns \<open>-1\<close> and makes no engine call; otherwise
  it makes the one engine call \<open>SendMessage\<close> with the parsed JID and the text, and
  returns \<open>0\<close> exactly when the engine returned no error (\<open>-1\<close> when it did).
\<close>

theorem send_message_outcomes:
  assumes ok: "registry_ok w"
  shows "(accounts w acct = None \<longrightarrow>
            gowhatsapp_go_send_message e w acct target txt = (- 1, [Mu_Lock, Mu_Unlock]))
   \<and> (accounts w acct \<noteq> None \<and> snd (ParseJID e target) = Some err \<longrightarrow>
         gowhatsapp_go_send_message e w acct target txt =
           (- 1, [Mu_Lock, Mu_Unlock, Bridge_error acct (Invalid_JID target err)]))
   \<and> (accounts w acct = Some st \<and> ParseJID e target = (j, None) \<longrightarrow>
         (\<exists>cl. client st = Some cl
            \<and> filter engine_call (snd (gowhatsapp_go_send_message e w acct target txt)) =
                [Client_SendMessage cl Background j txt]
            \<and> (fst (gowhatsapp_go_send_message e w acct target txt) = 0 \<longleftrightarrow>
                 SendMessage e cl j txt = None)
            \<and> (fst (gowhatsapp_go_send_message e w acct target txt) = 0 \<or>
               fst (gowhatsapp_go_send_message e w acct target txt) = - 1)))"
proof -
  have absent: "accounts w acct = None \<longrightarrow>
      gowhatsapp_go_send_message e w acct target txt = (- 1, [Mu_Lock, Mu_Unlock])"
    by (simp add: send_message_absent)
  have invalid: "gowhatsapp_go_send_message e w acct target txt =
      (- 1, [Mu_Lock, Mu_Unlock, Bridge_error acct (Invalid_JID target err)])"
    if a: "accounts w acct \<noteq> None \<and> snd (ParseJID e target) = Some err"
  proof -
    from a obtain s where s: "accounts w acct = Some s" by auto
    with ok obtain cl where "client s = Some cl"
      using registry_ok_client by blast
    with s a show ?thesis by (simp add: send_message_invalid)
  qed
  have forward: "\<exists>cl. client st = Some cl
      \<and> filter engine_call (snd (gowhatsapp_go_send_message e w acct target txt)) =
          [Client_SendMessage cl Background j txt]
      \<and> (fst (gowhatsapp_go_send_message e w acct target txt) = 0 \<longleftrightarrow>
           SendMessage e cl j txt = None)
      \<and> (fst (gowhatsapp_go_send_message e w acct target txt) = 0 \<or>
         fst (gowhatsapp_go_send_message e w acct target txt) = - 1)"
    if a: "accounts w acct = Some st \<and> ParseJID e target = (j, None)"
  proof -
    from ok a obtain cl where cl: "client st = Some cl"
      using registry_ok_client by blast
    have "gowhatsapp_go_send_message e w acct target txt =
       (case SendMessage e cl j txt of
          Some err \<Rightarrow>
            (- 1, [Mu_Lock, Mu_Unlock, Client_SendMessage cl Background j txt,
                   Bridge_error acct (Send_failed err)])
        | None \<Rightarrow> (0, [Mu_Lock, Mu_Unlock, Client_SendMessage cl Background j txt]))"
      using a cl by (simp add: send_message_forward)
    then have "client st = Some cl
        \<and> filter engine_call (snd (gowhatsapp_go_send_message e w acct target txt)) =
            [Client_SendMessage cl Background j txt]
        \<and> (fst (gowhatsapp_go_send_message e w acct target txt) = 0 \<longleftrightarrow>
             SendMessage e cl j txt = None)
        \<and> (fst (gowhatsapp_go_send_message e w acct target txt) = 0 \<or>
           fst (gowhatsapp_go_send_message e w acct target txt) = - 1)"
      using cl by (simp add: engine_call_def split: option.splits)
    then show ?thesis by (rule exI)
  qed
  from absent invalid forward show ?thesis by simp
qed

theorem send_message_outcomes_witness:
  "registry_ok world_one
   \<and> gowhatsapp_go_send_message engine_ok world_one 2 ''6598765432@s.whatsapp.net'' ''hi'' =
       (- 1, [Mu_Lock, Mu_Unlock])
   \<and> gowhatsapp_go_send_message engine_ok world_one 1 ''a.b.c@s.whatsapp.net'' ''hi'' =
       (- 1, [Mu_Lock, Mu_Unlock,
              Bridge_error 1 (Invalid_JID ''a.b.c@s.whatsapp.net''
                ''unexpected number of dots in JID'')])
   \<and> fst (gowhatsapp_go_send_message engine_ok world_one 1
            ''6598765432@s.whatsapp.net'' ''hi'') = 0
   \<and> fst (gowhatsapp_go_send_message engine_send_fails world_one 1
            ''6598765432@s.whatsapp.net'' ''hi'') = - 1"
proof -
  have a: "accounts world_one 2 = None"
    by (simp add: world_one_def)
  have b: "accounts world_one 1 \<noteq> None \<and>
      snd (ParseJID engine_ok ''a.b.c@s.whatsapp.net'') =
        Some ''unexpected number of dots in JID''"
    by (simp add: example_defs)
  have c: "accounts world_one 1 = Some state_one \<and>
      ParseJID engine_ok ''6598765432@s.whatsapp.net'' =
        (JID ''6598765432'' ''s.whatsapp.net'', None)"
    by (simp add: example_defs)
  have d: "accounts world_one 1 = Some state_one \<and>
      ParseJID engine_send_fails ''6598765432@s.whatsapp.net'' =
        (JID ''6598765432'' ''s.whatsapp.net'', None)"
    by (simp add: example_defs)
  have s1: "SendMessage engine_ok cl j t = None" for cl j t
    by (simp add: engine_ok_def)
  have s2: "SendMessage engine_send_fails cl j t \<noteq> None" for cl j t
    by (simp add: engine_send_fails_def engine_ok_def)
  note t = send_message_outcomes [OF registry_ok_one]
  have 1: "gowhatsapp_go_send_message engine_ok world_one 2
      ''6598765432@s.whatsapp.net'' ''hi'' = (- 1, [Mu_Lock, Mu_Unlock])"
    using t [of 2 engine_ok] a by simp
  have 2: "gowhatsapp_go_send_message engine_ok world_one 1 ''a.b.c@s.whatsapp.net'' ''hi'' =
      (- 1, [Mu_Lock, Mu_Unlock,
             Bridge_error 1 (Invalid_JID ''a.b.c@s.whatsapp.net''
               ''unexpected number of dots in JID'')])"
    using t [of 1 engine_ok "''a.b.c@s.whatsapp.net''" _
        "''unexpected number of dots in JID''"] b
    by simp
  have 3: "fst (gowhatsapp_go_send_message engine_ok world_one 1
      ''6598765432@s.whatsapp.net'' ''hi'') = 0"
    using t [of 1 engine_ok "''6598765432@s.whatsapp.net''" _ _ state_one
        "JID ''6598765432'' ''s.whatsapp.net''"] c s1
    by auto
  have 4: "fst (gowhatsapp_go_send_message engine_send_fails world_one 1
      ''6598765432@s.whatsapp.net'' ''hi'') = - 1"
    using t [of 1 engine_send_fails "''6598765432@s.whatsapp.net''" _ _ state_one
        "JID ''6598765432'' ''s.whatsapp.net''"] d s2
    by auto
  from registry_ok_one 1 2 3 4 show ?thesis by simp
qed

subsection \<open>Dropping a message with an empty text\<close>

text \<open>
  Claim C7. A received message whose classified text is the empty string produces no
  outward call: neither \<open>handleMessage\<close> nor \<open>handleEvent\<close> on the message event calls
  anything.
\<close>

theorem empty_text_dropped:
  "snd (extract_text (Message v)) = [] \<Longrightarrow>
   handleMessage acct v = [] \<and> handleEvent acct state (Ev_Message v) = []"
  by (simp add: handleMessage_def)

theorem empty_text_dropped_witness:
  "snd (extract_text (Message event_empty_extended)) = []
   \<and> handleMessage 1 event_empty_extended = []
   \<and> handleEvent 1 state_one (Ev_Message event_empty_extended) = []"
proof -
  have empty: "snd (extract_text (Message event_empty_extended)) = []"
    by (simp add: extract_text_def event_empty_extended_def message_empty_extended_def
        GetConversation_def GetExtendedTextMessage_def opt_string_def)
  with empty_text_dropped [OF empty, of 1 state_one] show ?thesis by simp
qed

subsection \<open>The typing notification\<close>

text \<open>
  Claim C8. On a registry built by login and logout: the typing notification calls
  nothing (no engine call, no error report) when the account has no record or the
  target does not parse; otherwise it sends one chat presence to the parsed JID,
  composing when the flag is not zero and paused when it is.
\<close>

theorem send_typing_outcomes:
  assumes ok: "registry_ok w"
  shows "(accounts w acct = None \<or> snd (ParseJID e target) \<noteq> None \<longrightarrow>
            gowhatsapp_go_send_typing e w acct target typing = [Mu_Lock, Mu_Unlock])
   \<and> (accounts w acct = Some st \<and> ParseJID e target = (j, None) \<longrightarrow>
         (\<exists>cl. client st = Some cl \<and>
            gowhatsapp_go_send_typing e w acct target typing =
              [Mu_Lock, Mu_Unlock,
               Client_SendChatPresence cl j
                 (if typing \<noteq> 0 then ChatPresenceComposing else ChatPresencePaused)]))"
proof -
  have silent: "accounts w acct = None \<or> snd (ParseJID e target) \<noteq> None \<longrightarrow>
      gowhatsapp_go_send_typing e w acct target typing = [Mu_Lock, Mu_Unlock]"
    using send_typing_absent send_typing_invalid by blast
  have forward: "\<exists>cl. client st = Some cl \<and>
      gowhatsapp_go_send_typing e w acct target typing =
        [Mu_Lock, Mu_Unlock,
         Client_SendChatPresence cl j
           (if typing \<noteq> 0 then ChatPresenceComposing else ChatPresencePaused)]"
    if a: "accounts w acct = Some st \<and> ParseJID e target = (j, None)"
  proof -
    from ok a obtain cl where cl: "client st = Some cl"
      using registry_ok_client by blast
    with a have "client st = Some cl \<and>
        gowhatsapp_go_send_typing e w acct target typing =
          [Mu_Lock, Mu_Unlock,
           Client_SendChatPresence cl j
             (if typing \<noteq> 0 then ChatPresenceComposing else ChatPresencePaused)]"
      using send_typing_forward [of w acct st cl e target j typing] by simp
    then show ?thesis by (rule exI)
  qed
  from silent forward show ?thesis by simp
qed

theorem send_typing_outcomes_witness:
  "registry_ok world_one
   \<and> gowhatsapp_go_send_typing engine_ok world_one 2 ''6598765432@s.whatsapp.net'' 1 =
       [Mu_Lock, Mu_Unlock]
   \<and> gowhatsapp_go_send_typing engine_ok world_one 1 ''a.b.c@s.whatsapp.net'' 1 =
       [Mu_Lock, Mu_Unlock]
   \<and> gowhatsapp_go_send_typing engine_ok world_one 1 ''6598765432@s.whatsapp.net'' 1 =
       [Mu_Lock, Mu_Unlock,
        Client_SendChatPresence (Client (Device None))
          (JID ''6598765432'' ''s.whatsapp.net'') ChatPresenceComposing]
   \<and> gowhatsapp_go_send_typing engine_ok world_one 1 ''6598765432@s.whatsapp.net'' 0 =
       [Mu_Lock, Mu_Unlock,
        Client_SendChatPresence (Client (Device None))
          (JID ''6598765432'' ''s.whatsapp.net'') ChatPresencePaused]"
proof -
  have a: "accounts world_one 2 = None"
    by (simp add: world_one_def)
  have b: "snd (ParseJID engine_ok ''a.b.c@s.whatsapp.net'') \<noteq> None"
    by (simp add: example_defs)
  have c: "accounts world_one 1 = Some state_one \<and>
      ParseJID engine_ok ''6598765432@s.whatsapp.net'' =
        (JID ''6598765432'' ''s.whatsapp.net'', None)"
    by (simp add: example_defs)
  have cl: "client state_one = Some (Client (Device None))"
    by (simp add: state_one_def)
  note t = send_typing_outcomes [OF registry_ok_one]
  have 1: "gowhatsapp_go_send_typing engine_ok world_one 2 ''6598765432@s.whatsapp.net'' 1 =
      [Mu_Lock, Mu_Unlock]"
    using t [of 2 engine_ok] a by simp
  have 2: "gowhatsapp_go_send_typing engine_ok world_one 1 ''a.b.c@s.whatsapp.net'' 1 =
      [Mu_Lock, Mu_Unlock]"
    using t [of 1 engine_ok "''a.b.c@s.whatsapp.net''"] b by simp
  have 3: "gowhatsapp_go_send_typing engine_ok world_one 1 ''6598765432@s.whatsapp.net'' 1 =
      [Mu_Lock, Mu_Unlock,
       Client_SendChatPresence (Client (Device None))
         (JID ''6598765432'' ''s.whatsapp.net'') ChatPresenceComposing]"
    using t [of 1 engine_ok "''6598765432@s.whatsapp.net''" 1 state_one
        "JID ''6598765432'' ''s.whatsapp.net''"] c cl
    by auto
  have 4: "gowhatsapp_go_send_typing engine_ok world_one 1 ''6598765432@s.whatsapp.net'' 0 =
      [Mu_Lock, Mu_Unlock,
       Client_SendChatPresence (Client (Device None))
         (JID ''6598765432'' ''s.whatsapp.net'') ChatPresencePaused]"
    using t [of 1 engine_ok "''6598765432@s.whatsapp.net''" 0 state_one
        "JID ''6598765432'' ''s.whatsapp.net''"] c cl
    by auto
  from registry_ok_one 1 2 3 4 show ?thesis by simp
qed

subsection \<open>The read receipt\<close>

text \<open>
  Claim C9. On a registry built by login and logout: marking as read makes no engine
  call exactly when the message id is empty or the account has no record (it then
  calls nothing but the mutex); otherwise it makes exactly one engine call, a
  \<open>MarkRead\<close> for that one message id.
\<close>

theorem mark_read_outcomes:
  assumes ok: "registry_ok w"
  shows "(filter engine_call (gowhatsapp_go_mark_read e w acct chat msgID sender) = [] \<longleftrightarrow>
            msgID = [] \<or> accounts w acct = None)
   \<and> (msgID = [] \<or> accounts w acct = None \<longrightarrow>
         gowhatsapp_go_mark_read e w acct chat msgID sender = [Mu_Lock, Mu_Unlock])
   \<and> (msgID \<noteq> [] \<and> accounts w acct = Some st \<longrightarrow>
         (\<exists>cl. client st = Some cl \<and>
            filter engine_call (gowhatsapp_go_mark_read e w acct chat msgID sender) =
              [Client_MarkRead cl [msgID] (fst (ParseJID e chat)) (fst (ParseJID e sender))
                 (fst (ParseJID e chat))]))"
proof -
  have noop: "gowhatsapp_go_mark_read e w acct chat msgID sender = [Mu_Lock, Mu_Unlock]"
    if "msgID = [] \<or> accounts w acct = None"
    using that mark_read_absent mark_read_empty_id by blast
  have forward: "\<exists>cl. client st = Some cl \<and>
      gowhatsapp_go_mark_read e w acct chat msgID sender =
        [Mu_Lock, Mu_Unlock,
         Client_MarkRead cl [msgID] (fst (ParseJID e chat)) (fst (ParseJID e sender))
           (fst (ParseJID e chat))]"
    if a: "msgID \<noteq> []" "accounts w acct = Some st" for st
  proof -
    from ok a obtain cl where cl: "client st = Some cl"
      using registry_ok_client by blast
    with a show ?thesis by (simp add: mark_read_forward)
  qed
  have calls: "filter engine_call (gowhatsapp_go_mark_read e w acct chat msgID sender) \<noteq> []"
    if a: "msgID \<noteq> []" "accounts w acct \<noteq> None"
  proof -
    from a obtain s where "accounts w acct = Some s" by auto
    with forward a obtain cl where
      "gowhatsapp_go_mark_read e w acct chat msgID sender =
        [Mu_Lock, Mu_Unlock,
         Client_MarkRead cl [msgID] (fst (ParseJID e chat)) (fst (ParseJID e sender))
           (fst (ParseJID e chat))]"
      by blast
    then show ?thesis by (simp add: engine_call_def)
  qed
  have iff: "filter engine_call (gowhatsapp_go_mark_read e w acct chat msgID sender) = [] \<longleftrightarrow>
      msgID = [] \<or> accounts w acct = None"
    using noop calls by (auto simp add: engine_call_def)
  have one: "\<exists>cl. client st = Some cl \<and>
      filter engine_call (gowhatsapp_go_mark_read e w acct chat msgID sender) =
        [Client_MarkRead cl [msgID] (fst (ParseJID e chat)) (fst (ParseJID e sender))
           (fst (ParseJID e chat))]"
    if a: "msgID \<noteq> [] \<and> accounts w acct = Some st"
  proof -
    from forward a obtain cl where "client st = Some cl"
      "gowhatsapp_go_mark_read e w acct chat msgID sender =
        [Mu_Lock, Mu_Unlock,
         Client_MarkRead cl [msgID] (fst (ParseJID e chat)) (fst (ParseJID e sender))
           (fst (ParseJID e chat))]"
      by blast
    then have "client st = Some cl \<and>
        filter engine_call (gowhatsapp_go_mark_read e w acct chat msgID sender) =
          [Client_MarkRead cl [msgID] (fst (ParseJID e chat)) (fst (ParseJID e sender))
             (fst (ParseJID e chat))]"
      by (simp add: engine_call_def)
    then show ?thesis by (rule exI)
  qed
  from iff noop one show ?thesis by simp
qed

theorem mark_read_outcomes_witness:
  "registry_ok world_one
   \<and> gowhatsapp_go_mark_read engine_ok world_one 1 ''6598765432@s.whatsapp.net'' []
       ''6598765432@s.whatsapp.net'' = [Mu_Lock, Mu_Unlock]
   \<and> gowhatsapp_go_mark_read engine_ok world_one 2 ''6598765432@s.whatsapp.net'' ''3EB0A1''
       ''6598765432@s.whatsapp.net'' = [Mu_Lock, Mu_Unlock]
   \<and> filter engine_call
       (gowhatsapp_go_mark_read engine_ok world_one 1 ''6598765432@s.whatsapp.net''
          ''3EB0A1'' ''6598765432@s.whatsapp.net'') =
       [Client_MarkRead (Client (Device None)) [''3EB0A1'']
          (JID ''6598765432'' ''s.whatsapp.net'') (JID ''6598765432'' ''s.whatsapp.net'')
          (JID ''6598765432'' ''s.whatsapp.net'')]"
proof -
  have a: "accounts world_one 2 = None"
    by (simp add: world_one_def)
  have c: "accounts world_one 1 = Some state_one"
    by (simp add: world_one_def)
  have cl: "client state_one = Some (Client (Device None))"
    by (simp add: state_one_def)
  have p: "ParseJID engine_ok ''6598765432@s.whatsapp.net'' =
      (JID ''6598765432'' ''s.whatsapp.net'', None)"
    by (simp add: example_defs)
  have id: "''3EB0A1'' \<noteq> []"
    by simp
  note t = mark_read_outcomes [OF registry_ok_one]
  have 1: "gowhatsapp_go_mark_read engine_ok world_one 1 ''6598765432@s.whatsapp.net'' []
      ''6598765432@s.whatsapp.net'' = [Mu_Lock, Mu_Unlock]"
    using t [of engine_ok 1 _ "[]"] by simp
  have 2: "gowhatsapp_go_mark_read engine_ok world_one 2 ''6598765432@s.whatsapp.net''
      ''3EB0A1'' ''6598765432@s.whatsapp.net'' = [Mu_Lock, Mu_Unlock]"
    using t [of engine_ok 2] a by simp
  have 3: "filter engine_call
      (gowhatsapp_go_mark_read engine_ok world_one 1 ''6598765432@s.whatsapp.net''
         ''3EB0A1'' ''6598765432@s.whatsapp.net'') =
      [Client_MarkRead (Client (Device None)) [''3EB0A1'']
         (JID ''6598765432'' ''s.whatsapp.net'') (JID ''6598765432'' ''s.whatsapp.net'')
         (JID ''6598765432'' ''s.whatsapp.net'')]"
    using t [of engine_ok 1 "''6598765432@s.whatsapp.net''" "''3EB0A1''"
        "''6598765432@s.whatsapp.net''" state_one] c cl p id
    by auto
  from registry_ok_one 1 2 3 show ?thesis by simp
qed

text \<open>
  Claim C10, as stated: an address that failed to parse is replaced by the zero value.
  The JID handed to \<open>MarkRead\<close> is the first value \<open>ParseJID\<close> returned, and a parser
  that returns the JID it has built so far together with its error makes it differ
  from the zero value.
\<close>

theorem mark_read_uses_returned_jid:
  "gowhatsapp_go_mark_read engine_ok world_one 1 ''a.b.c@s.whatsapp.net'' ''3EB0A1''
     ''6598765432@s.whatsapp.net'' =
     [Mu_Lock, Mu_Unlock,
      Client_MarkRead (Client (Device None)) [''3EB0A1''] (JID ''a.b.c'' ''s.whatsapp.net'')
        (JID ''6598765432'' ''s.whatsapp.net'') (JID ''a.b.c'' ''s.whatsapp.net'')]
   \<and> snd (ParseJID engine_ok ''a.b.c@s.whatsapp.net'') = Some ''unexpected number of dots in JID''
   \<and> JID ''a.b.c'' ''s.whatsapp.net'' \<noteq> emptyJID"
  by (simp add: gowhatsapp_go_mark_read_def example_defs Let_def emptyJID_def)

text \<open>
  Claim C10, amended. When the account has a record and the message id is not empty,
  the read receipt ignores the errors of parsing the chat and the sender: it reports
  nothing and still forwards the request, with the JIDs that \<open>ParseJID\<close> returned
  beside its errors; these are the zero value for every address whose failed parse
  returns the zero value.
\<close>

theorem mark_read_ignores_parse_errors:
  assumes ok: "registry_ok w" and session: "accounts w acct = Some st"
    and id: "msgID \<noteq> []"
  shows "\<exists>cl. client st = Some cl \<and>
     gowhatsapp_go_mark_read e w acct chat msgID sender =
       [Mu_Lock, Mu_Unlock,
        Client_MarkRead cl [msgID] (fst (ParseJID e chat)) (fst (ParseJID e sender))
          (fst (ParseJID e chat))] \<and>
     (\<forall>c. ParseJID e chat = (emptyJID, Some c) \<longrightarrow>
        gowhatsapp_go_mark_read e w acct chat msgID sender =
          [Mu_Lock, Mu_Unlock,
           Client_MarkRead cl [msgID] emptyJID (fst (ParseJID e sender)) emptyJID]) \<and>
     (\<forall>s. ParseJID e sender = (emptyJID, Some s) \<longrightarrow>
        gowhatsapp_go_mark_read e w acct chat msgID sender =
          [Mu_Lock, Mu_Unlock,
           Client_MarkRead cl [msgID] (fst (ParseJID e chat)) emptyJID
             (fst (ParseJID e chat))])"
proof -
  from ok session obtain cl where cl: "client st = Some cl"
    using registry_ok_client by blast
  with session id have "client st = Some cl \<and>
      gowhatsapp_go_mark_read e w acct chat msgID sender =
        [Mu_Lock, Mu_Unlock,
         Client_MarkRead cl [msgID] (fst (ParseJID e chat)) (fst (ParseJID e sender))
           (fst (ParseJID e chat))]"
    by (simp add: mark_read_forward)
  then have "client st = Some cl \<and>
     gowhatsapp_go_mark_read e w acct chat msgID sender =
       [Mu_Lock, Mu_Unlock,
        Client_MarkRead cl [msgID] (fst (ParseJID e chat)) (fst (ParseJID e sender))
          (fst (ParseJID e chat))] \<and>
     (\<forall>c. ParseJID e chat = (emptyJID, Some c) \<longrightarrow>
        gowhatsapp_go_mark_read e w acct chat msgID sender =
          [Mu_Lock, Mu_Unlock,
           Client_MarkRead cl [msgID] emptyJID (fst (ParseJID e sender)) emptyJID]) \<and>
     (\<forall>s. ParseJID e sender = (emptyJID, Some s) \<longrightarrow>
        gowhatsapp_go_mark_read e w acct chat msgID sender =
          [Mu_Lock, Mu_Unlock,
           Client_MarkRead cl [msgID] (fst (ParseJID e chat)) emptyJID
             (fst (ParseJID e chat))])"
    by simp
  then show ?thesis by (rule exI)
qed

theorem mark_read_ignores_parse_errors_witness:
  "registry_ok world_one \<and> accounts world_one 1 = Some state_one \<and> ''3EB0A1'' \<noteq> []
   \<and> snd (ParseJID engine_ok ''a.b.c@s.whatsapp.net'') \<noteq> None
   \<and> gowhatsapp_go_mark_read engine_ok world_one 1 ''a.b.c@s.whatsapp.net'' ''3EB0A1''
       ''6598765432@s.whatsapp.net'' =
       [Mu_Lock, Mu_Unlock,
        Client_MarkRead (Client (Device None)) [''3EB0A1''] (JID ''a.b.c'' ''s.whatsapp.net'')
          (JID ''6598765432'' ''s.whatsapp.net'') (JID ''a.b.c'' ''s.whatsapp.net'')]"
proof -
  have session: "accounts world_one 1 = Some state_one"
    by (simp add: world_one_def)
  have id: "''3EB0A1'' \<noteq> []"
    by simp
  have cl: "client state_one = Some (Client (Device None))"
    by (simp add: state_one_def)
  have p: "ParseJID engine_ok ''a.b.c@s.whatsapp.net'' =
        (JID ''a.b.c'' ''s.whatsapp.net'', Some ''unexpected number of dots in JID'')
      \<and> ParseJID engine_ok ''6598765432@s.whatsapp.net'' =
        (JID ''6598765432'' ''s.whatsapp.net'', None)"
    by (simp add: example_defs)
  from mark_read_ignores_parse_errors [OF registry_ok_one session id, of engine_ok
      "''a.b.c@s.whatsapp.net''" "''6598765432@s.whatsapp.net''"] cl p
  have "gowhatsapp_go_mark_read engine_ok world_one 1 ''a.b.c@s.whatsapp.net'' ''3EB0A1''
       ''6598765432@s.whatsapp.net'' =
       [Mu_Lock, Mu_Unlock,
        Client_MarkRead (Client (Device None)) [''3EB0A1''] (JID ''a.b.c'' ''s.whatsapp.net'')
          (JID ''6598765432'' ''s.whatsapp.net'') (JID ''a.b.c'' ''s.whatsapp.net'')]"
    by auto
  with registry_ok_one session id p show ?thesis by simp
qed

end
